theory Spec2Isabelle
  imports Main "HOL-Library.Word"
begin

section \<open>JavaScript data\<close>

text \<open>
  A JavaScript string is a sequence of UTF-16 code units. The name cleaner works on
  code units outside ASCII (U+2019, U+2014), so strings that carry user data are lists
  of 16-bit words. Property names, cookie names, role names and error messages are
  constants of the program text and are kept as \<open>string\<close>.
\<close>

type_synonym jsstring = "16 word list"

text \<open>
  The values a request body field can hold, with JavaScript's truthiness (\<open>!!v\<close>).
  Numbers are integers here: \<open>NaN\<close> and fractions are left out.
\<close>

datatype jsval =
    JUndefined
  | JNull
  | JBool bool
  | JNumber int
  | JString jsstring
  | JObject

fun truthy :: "jsval \<Rightarrow> bool" where
  "truthy JUndefined = False"
| "truthy JNull = False"
| "truthy (JBool b) = b"
| "truthy (JNumber n) = (n \<noteq> 0)"
| "truthy (JString s) = (s \<noteq> [])"
| "truthy JObject = True"

section \<open>user.model.js: the name cleaner\<close>

text \<open>
  \<open>s.replace(/[...]/g, r)\<close> for a character class: every code unit of \<open>s\<close> that the
  class \<open>p\<close> matches is replaced by the string \<open>r\<close>. None of the replacement strings
  of \<open>cleanName\<close> contains a \<open>$\<close> pattern.
\<close>

definition replace_g :: "(16 word \<Rightarrow> bool) \<Rightarrow> jsstring \<Rightarrow> jsstring \<Rightarrow> jsstring" where
  "replace_g p r s = concat (map (\<lambda>c. if p c then r else [c]) s)"

text \<open>
  \<open>cleanName\<close>: apostrophe U+0027 becomes U+2019, the em dash U+2014 becomes the
  hyphen U+002D, backslash U+005C and slash U+002F are removed, in this order.
\<close>

definition cleanName :: "jsstring \<Rightarrow> jsstring" where
  "cleanName name =
     replace_g (\<lambda>c. c = 0x5C \<or> c = 0x2F) []
       (replace_g (\<lambda>c. c = 0x2014) [0x2D]
         (replace_g (\<lambda>c. c = 0x27) [0x2019] name))"

section \<open>Errors\<close>

text \<open>
  The error classes the sources construct. \<open>Error\<close> is JavaScript's plain
  \<open>new Error(message)\<close>; \<open>TypeError\<close> is what the runtime throws when a property of
  \<open>undefined\<close> or \<open>null\<close> is read. \<open>NotAuthenticatedError\<close> carries the cause it
  was built from, if any; \<open>ValidationError\<close> carries the field and the failure type.
\<close>

datatype error =
    Error string
  | TypeError
  | ServerError string
  | NotAuthenticatedError "jsval option"
  | NotAuthorizedError
  | UserSuspendedError
  | ValidationError string string

section \<open>user.model.js: documents, roles and claims\<close>

type_synonym ObjectId = "96 word"

text \<open>
  What a reference-typed property of a loaded document holds: nothing, \<open>null\<close>, a raw
  \<open>ObjectId\<close>, or a populated document (an object whose \<open>_id\<close> is an \<open>ObjectId\<close>).
  Properties of other types (strings, numbers, plain objects) are not modelled.
\<close>

datatype propval =
    Undefined
  | Null
  | Ref ObjectId
  | Populated ObjectId

text \<open>
  A loaded document. \<open>oid\<close> is \<open>_id\<close>; \<open>isModified\<close> is Mongoose's
  \<open>isModified(path)\<close>; \<open>refs\<close> reads a reference-typed property by name.
  \<open>password\<close> is \<open>None\<close> when the field is unset.
\<close>

record document =
  oid :: ObjectId
  password :: "jsstring option"
  roles :: "string list"
  isSuspended :: bool
  isModified :: "string \<Rightarrow> bool"
  refs :: "string \<Rightarrow> propval"

definition hasRole :: "document \<Rightarrow> string \<Rightarrow> bool" where
  "hasRole this role = (role \<in> set (roles this))"

text \<open>
  The claims object. \<open>getClaims\<close> builds \<open>{id, roles}\<close>; the token handler may add
  \<open>secureStatus\<close>. The id is kept as the \<open>ObjectId\<close> that \<open>toString\<close> renders; the
  secure-status value is kept as the instant (milliseconds since the epoch) that
  \<open>toJSON\<close> renders.
\<close>

record claims =
  claim_id :: ObjectId
  claim_roles :: "string list"
  secureStatus :: "int option"

definition getClaims :: "document \<Rightarrow> claims" where
  "getClaims this = \<lparr>claim_id = oid this, claim_roles = roles this, secureStatus = None\<rparr>"

section \<open>user.model.js: the username generator\<close>

text \<open>\<open>String(n)\<close> for a non-negative integer: its decimal digits.\<close>

fun String_nat :: "nat \<Rightarrow> jsstring" where
  "String_nat n =
     (if n < 10 then [of_nat (48 + n)]
      else String_nat (n div 10) @ [of_nat (48 + n mod 10)])"

declare String_nat.simps [simp del]

text \<open>
  \<open>random()\<close> is \<open>String(Math.floor(Math.random() * 100) + 1)\<close>. The argument \<open>m\<close> is
  the value of \<open>Math.floor(Math.random() * 100)\<close> at that call, an integer from 0 to 99
  since \<open>Math.random()\<close> lies in [0, 1).
\<close>

definition random :: "nat \<Rightarrow> jsstring" where
  "random m = String_nat (m + 1)"

text \<open>
  The argument of \<open>uniqueUsername\<close>: \<open>email\<close> is \<open>None\<close> when the property is
  missing. The five draws are taken in the order of the array literal.
\<close>

record userdata =
  email :: "jsstring option"
  firstName :: jsstring
  lastName :: jsstring

type_synonym draws = "nat \<times> nat \<times> nat \<times> nat \<times> nat"

text \<open>
  The candidate array after the optional \<open>unshift\<close>. \<open>toLowerCase\<close> is the
  built-in \<open>String.prototype.toLowerCase\<close>, taken as a parameter; \<open>if (email)\<close> holds
  for a non-empty string only.
\<close>

fun usernames :: "(jsstring \<Rightarrow> jsstring) \<Rightarrow> draws \<Rightarrow> userdata \<Rightarrow> jsstring list" where
  "usernames toLowerCase (m1, m2, m3, m4, m5) data =
     (let name = toLowerCase (firstName data @ lastName data);
          us = [name,
                name @ random m1,
                name @ random m2,
                name @ random m3,
                name @ random m4,
                name @ random m5]
      in case email data of
           None \<Rightarrow> us
         | Some e \<Rightarrow> if e \<noteq> [] then toLowerCase e # us else us)"

declare usernames.simps [simp del]

text \<open>
  \<open>uniqueUsername\<close>. \<open>stored\<close> lists the usernames of the stored users; the query
  \<open>find({username: {$in: usernames}})\<close> returns those among the candidates. The
  promise is rejected (\<open>Inl\<close>) when \<open>!username\<close> holds for what \<open>find\<close> returned:
  \<open>undefined\<close>, or the empty string.
\<close>

definition uniqueUsername ::
  "(jsstring \<Rightarrow> jsstring) \<Rightarrow> draws \<Rightarrow> userdata \<Rightarrow> jsstring list \<Rightarrow> error + jsstring" where
  "uniqueUsername toLowerCase ms data stored =
     (let us = usernames toLowerCase ms data;
          users = filter (\<lambda>u. u \<in> set us) stored
      in case find (\<lambda>username. \<not> list_ex (\<lambda>user. user = username) users) us of
           None \<Rightarrow> Inl (Error ''Unable to find unique username for user'')
         | Some username \<Rightarrow>
             if username = [] then Inl (Error ''Unable to find unique username for user'')
             else Inr username)"

text \<open>The last five entries of a candidate array: the suffixed variants.\<close>

definition suffixed :: "jsstring list \<Rightarrow> jsstring list" where
  "suffixed us = drop (length us - 5) us"

section \<open>user.model.js: password hashing and serialization\<close>







text \<open>
  The \<open>toJSON\<close> transform: \<open>ret\<close> is the plain object being serialized, a map from
  property names to values; \<open>delete\<close> removes a key.
\<close>

definition toJSON_transform :: "document \<Rightarrow> (string \<rightharpoonup> jsval) \<Rightarrow> (string \<rightharpoonup> jsval)" where
  "toJSON_transform doc ret = (ret(''password'' := None))(''fullName'' := None)"

section \<open>The auth controller: requests, tokens and responses\<close>

text \<open>
  The parts of the Express request the controller reads: three body fields,
  \<open>req.secure\<close>, the two values of \<open>req.app.locals\<close>, and \<open>req[key]\<close> for the
  documents earlier middleware attached (\<open>req.me\<close> is \<open>entity req ''me''\<close>; \<open>None\<close>
  is \<open>undefined\<close>).
\<close>

record request =
  body_grantType :: jsval
  body_remember :: jsval
  body_secureStatus :: jsval
  secure :: bool
  SECURE_STATUS_EXPIRATION :: int
  REFRESH_TOKEN_COOKIE_MAX_AGE :: int
  entity :: "string \<Rightarrow> document option"

text \<open>
  The JWT service is a library: a token is represented by the arguments of the
  \<open>jwt.generate(type, claims)\<close> call that made it.
\<close>

datatype token = Token string claims

fun token_type :: "token \<Rightarrow> string" where
  "token_type (Token t c) = t"

fun token_claims :: "token \<Rightarrow> claims" where
  "token_claims (Token t c) = c"

text \<open>A \<open>res.cookie(name, value, options)\<close> call; \<open>maxAge\<close> is in milliseconds.\<close>

record cookie =
  cookie_name :: string
  cookie_value :: token
  maxAge :: int
  cookie_secure :: bool
  httpOnly :: bool

text \<open>
  What a successful run of the handler did: the \<open>jwt.generate\<close> calls in order, the
  document stored in \<open>req.me\<close>, the cookies set, and the \<open>accessToken\<close> of the body
  passed to \<open>res.send\<close>.
\<close>

record response =
  generated :: "token list"
  req_me :: document
  cookies :: "cookie list"
  body_accessToken :: token

text \<open>
  The handler ends with \<open>next(error)\<close>, with \<open>res.send\<close>, or, for a grant type the
  \<open>switch\<close> has no case for, without doing anything.
\<close>

datatype token_result =
    Next error
  | Send response
  | Nothing

text \<open>
  \<open>js\<close> embeds an ASCII literal of the program text into JavaScript strings.
\<close>

definition js :: "string \<Rightarrow> jsstring" where
  "js s = map (\<lambda>c. of_nat (of_char c)) s"

text \<open>
  \<open>authCallback(error, user)\<close>, with the variables of the enclosing \<open>token\<close> call it
  closes over. \<open>now\<close> is the instant \<open>moment()\<close> reads, in milliseconds;
  \<open>add(EXPIRATION, 'seconds')\<close> moves it by \<open>EXPIRATION * 1000\<close>. \<open>user\<close> is \<open>None\<close>
  when passport passes \<open>false\<close>.
\<close>

definition authCallback ::
  "request \<Rightarrow> jsstring \<Rightarrow> bool \<Rightarrow> bool \<Rightarrow> int \<Rightarrow> jsval \<Rightarrow> document option \<Rightarrow> token_result" where
  "authCallback req grantType remember secureStatus_flag now err user =
     (if truthy err then Next (NotAuthenticatedError (Some err))
      else case user of
        None \<Rightarrow> Next (NotAuthenticatedError None)
      | Some u \<Rightarrow>
          if isSuspended u then Next UserSuspendedError
          else
            let claims0 = getClaims u;
                claims1 =
                  (if secureStatus_flag \<and> grantType = js ''password''
                   then claims0\<lparr>secureStatus :=
                          Some (now + SECURE_STATUS_EXPIRATION req * 1000)\<rparr>
                   else claims0);
                accessToken = Token ''access'' claims1
            in if remember then
                 let COOKIE_MAX_AGE = REFRESH_TOKEN_COOKIE_MAX_AGE req;
                     refreshToken = Token ''refresh'' (getClaims u)
                 in Send \<lparr>generated = [accessToken, refreshToken],
                          req_me = u,
                          cookies = [\<lparr>cookie_name = ''refreshToken'',
                                      cookie_value = refreshToken,
                                      maxAge = COOKIE_MAX_AGE * 1000,
                                      cookie_secure = secure req,
                                      httpOnly = True\<rparr>],
                          body_accessToken = accessToken\<rparr>
               else Send \<lparr>generated = [accessToken],
                          req_me = u,
                          cookies = [],
                          body_accessToken = accessToken\<rparr>)"

text \<open>
  \<open>token(req, res, next)\<close>. \<open>toCamelCase\<close> is a helper of the repository that is not
  among the sources, taken as a parameter. \<open>authenticate strategy\<close> is what
  \<open>passport.authenticate(strategy, authCallback)(req, res, next)\<close> passes to the
  callback: an error (falsy when there is none) and the user (\<open>None\<close> for \<open>false\<close>).
\<close>

definition token ::
  "(jsval \<Rightarrow> jsstring) \<Rightarrow> (string \<Rightarrow> jsval \<times> document option) \<Rightarrow> int \<Rightarrow> request \<Rightarrow> token_result" where
  "token toCamelCase authenticate now req =
     (let grantType = toCamelCase (body_grantType req);
          remember = truthy (body_remember req);
          secureStatus_flag = truthy (body_secureStatus req);
          authCallback' = (\<lambda>(err, user).
            authCallback req grantType remember secureStatus_flag now err user)
      in if grantType = js ''bearer'' then authCallback' (authenticate ''bearer'')
         else if grantType = js ''password'' then authCallback' (authenticate ''local'')
         else if grantType = js ''refreshToken'' then authCallback' (authenticate ''refresh'')
         else Nothing)"

section \<open>The auth controller: middleware\<close>

text \<open>
  A middleware ends with \<open>next()\<close>, with \<open>next(error)\<close>, or by throwing.
\<close>

datatype mw_result =
    Pass
  | Fail error
  | Throws error

text \<open>
  \<open>ensureAuthenticated(...roles)\<close>: the returned middleware, applied to a request.
\<close>

definition ensureAuthenticated :: "string list \<Rightarrow> request \<Rightarrow> mw_result" where
  "ensureAuthenticated rs req =
     (case entity req ''me'' of
        None \<Rightarrow> Fail (NotAuthenticatedError None)
      | Some user \<Rightarrow>
          if isSuspended user then Fail UserSuspendedError
          else if rs \<noteq> [] \<and> \<not> list_ex (\<lambda>role. hasRole user role) rs
          then Fail NotAuthorizedError
          else Pass)"

text \<open>
  \<open>roles.some(role => user.hasRole(role))\<close>: the callback runs once per element
  until it returns true, and reading \<open>hasRole\<close> of an undefined \<open>user\<close> throws a
  \<open>TypeError\<close>. On an empty array the callback never runs.
\<close>

fun some_hasRole :: "document option \<Rightarrow> string list \<Rightarrow> error + bool" where
  "some_hasRole user [] = Inr False"
| "some_hasRole None (role # rs) = Inl TypeError"
| "some_hasRole (Some u) (role # rs) =
     (if hasRole u role then Inr True else some_hasRole (Some u) rs)"

text \<open>
  The identifier the comparison uses: \<open>prop\<close> itself, or \<open>prop._id\<close> when \<open>prop\<close> is
  an object whose \<open>_id\<close> is an \<open>ObjectId\<close>. \<open>typeof null\<close> is \<open>'object'\<close>, so for
  \<open>null\<close> the read of \<open>prop._id\<close> throws. \<open>Undefined\<close> does not reach this point.
\<close>

fun resolve_id :: "propval \<Rightarrow> error + propval" where
  "resolve_id Undefined = Inr Undefined"
| "resolve_id Null = Inl TypeError"
| "resolve_id (Ref i) = Inr (Ref i)"
| "resolve_id (Populated i) = Inr (Ref i)"

text \<open>\<open>ObjectId.equals\<close> of the driver, on the values of \<open>propval\<close>.\<close>

fun equals :: "ObjectId \<Rightarrow> propval \<Rightarrow> bool" where
  "equals a (Ref b) = (a = b)"
| "equals a v = False"

text \<open>The middleware \<open>belongsTo\<close> returns, with the variables it closes over.\<close>

definition belongsTo_middleware ::
  "string \<Rightarrow> string \<Rightarrow> string \<Rightarrow> string list option \<Rightarrow> request \<Rightarrow> mw_result" where
  "belongsTo_middleware itemKey ownerKey propKey rs req =
     (let user = entity req ''me'';
          owner = entity req ownerKey;
          item = entity req itemKey
      in case (case rs of None \<Rightarrow> Inr False | Some a \<Rightarrow> some_hasRole user a) of
           Inl e \<Rightarrow> Throws e
         | Inr True \<Rightarrow> Pass
         | Inr False \<Rightarrow>
            (case owner of
               None \<Rightarrow> Fail (ServerError (''Owner of type '' @ ownerKey @ '' has not been loaded''))
             | Some ow \<Rightarrow>
                (case item of
                   None \<Rightarrow> Fail (ServerError (''Item of type '' @ itemKey @ '' has not been loaded''))
                 | Some it \<Rightarrow>
                    if refs it propKey = Undefined
                    then Fail (ServerError (''Item of type '' @ itemKey @ '' has no '' @ propKey @ '' property''))
                    else (case resolve_id (refs it propKey) of
                            Inl e \<Rightarrow> Throws e
                          | Inr i \<Rightarrow> if \<not> equals (oid ow) i then Fail NotAuthorizedError else Pass))))"

text \<open>
  The third argument of \<open>belongsTo\<close>: missing, a property name, or an array (then
  taken as the roles).
\<close>

datatype propkey_arg =
    PKUndefined
  | PKString string
  | PKArray "string list"

text \<open>
  \<open>belongsTo(itemKey, ownerKey, propKey, roles)\<close>: \<open>Inl\<close> when it throws at set-up,
  \<open>Inr\<close> the middleware otherwise. \<open>!propKey\<close> holds for \<open>undefined\<close> and for the
  empty string.
\<close>

definition belongsTo ::
  "string \<Rightarrow> string \<Rightarrow> propkey_arg \<Rightarrow> string list option \<Rightarrow> error + (request \<Rightarrow> mw_result)" where
  "belongsTo itemKey ownerKey propKey rs =
     (let (rs1, propKey1) =
            (case propKey of PKArray a \<Rightarrow> (Some a, PKUndefined) | _ \<Rightarrow> (rs, propKey));
          propKey2 =
            (if propKey1 = PKUndefined
             then (if ownerKey = ''me'' then PKString ''user'' else PKUndefined)
             else propKey1)
      in case propKey2 of
           PKString k \<Rightarrow>
             if k = [] then Inl (Error ''Missing prop key and unknown owner key'')
             else Inr (belongsTo_middleware itemKey ownerKey k rs1)
         | _ \<Rightarrow> Inl (Error ''Missing prop key and unknown owner key''))"

section \<open>Concrete values for the closed instances\<close>

text \<open>
  Inputs at which the theorems below are instantiated. \<open>camelCase_id\<close> stands in for
  \<open>toCamelCase\<close> on strings that are in camel case already; \<open>user_doc\<close> is a user
  with the given id, roles and suspension flag; \<open>item_doc\<close> is a document whose
  property of the given name holds the given value; \<open>grant_request\<close> is a token request with
  the given body fields and \<open>req.secure\<close>; \<open>loaded_request\<close> is a request to which the
  listed documents are attached.
\<close>

definition camelCase_id :: "jsval \<Rightarrow> jsstring" where
  "camelCase_id v = (case v of JString s \<Rightarrow> s | _ \<Rightarrow> [])"

definition user_doc :: "ObjectId \<Rightarrow> string list \<Rightarrow> bool \<Rightarrow> document" where
  "user_doc i rs s =
     \<lparr>oid = i, password = None, roles = rs, isSuspended = s,
      isModified = (\<lambda>path. False), refs = (\<lambda>key. Undefined)\<rparr>"

definition item_doc :: "ObjectId \<Rightarrow> string \<Rightarrow> propval \<Rightarrow> document" where
  "item_doc i k v =
     \<lparr>oid = i, password = None, roles = [], isSuspended = False,
      isModified = (\<lambda>path. False),
      refs = (\<lambda>key. if key = k then v else Undefined)\<rparr>"

definition grant_request :: "string \<Rightarrow> jsval \<Rightarrow> jsval \<Rightarrow> bool \<Rightarrow> request" where
  "grant_request g r s sec =
     \<lparr>body_grantType = JString (js g), body_remember = r, body_secureStatus = s,
      secure = sec, SECURE_STATUS_EXPIRATION = 300,
      REFRESH_TOKEN_COOKIE_MAX_AGE = 2592000, entity = (\<lambda>key. None)\<rparr>"

definition loaded_request :: "(string \<times> document) list \<Rightarrow> request" where
  "loaded_request docs =
     \<lparr>body_grantType = JUndefined, body_remember = JUndefined,
      body_secureStatus = JUndefined, secure = True, SECURE_STATUS_EXPIRATION = 300,
      REFRESH_TOKEN_COOKIE_MAX_AGE = 2592000, entity = map_of docs\<rparr>"


section \<open>Properties of the name cleaner\<close>

lemma replace_g_Nil: "replace_g p r [] = []"
  by (simp add: replace_g_def)

lemma replace_g_Cons: "replace_g p r (c # s) = (if p c then r else [c]) @ replace_g p r s"
  by (simp add: replace_g_def)

lemma replace_g_append: "replace_g p r (s @ t) = replace_g p r s @ replace_g p r t"
  by (simp add: replace_g_def)

lemma cleanName_Nil: "cleanName [] = []"
  by (simp add: cleanName_def replace_g_Nil)

lemma cleanName_Cons:
  "cleanName (c # s) =
     (if c = 0x27 then [0x2019]
      else if c = 0x2014 then [0x2D]
      else if c = 0x5C \<or> c = 0x2F then []
      else [c]) @ cleanName s"
  by (simp add: cleanName_def replace_g_Cons replace_g_Nil replace_g_append)

lemma cleanName_append: "cleanName (s @ t) = cleanName s @ cleanName t"
  by (simp add: cleanName_def replace_g_append)

lemma cleanName_unit:
  "cleanName (if c = 0x27 then [0x2019]
              else if c = 0x2014 then [0x2D]
              else if c = 0x5C \<or> c = 0x2F then []
              else [c]) =
   (if c = 0x27 then [0x2019]
    else if c = 0x2014 then [0x2D]
    else if c = 0x5C \<or> c = 0x2F then []
    else [c])"
  by (simp add: cleanName_Cons cleanName_Nil)

text \<open>
  C8. The name cleaner is a function of its argument alone, and cleaning a cleaned name
  changes nothing: \<open>cleanName (cleanName s) = cleanName s\<close> for every string \<open>s\<close>.
\<close>

theorem cleanName_idempotent: "cleanName (cleanName s) = cleanName s"
proof (induction s)
  case Nil
  show ?case by (simp add: cleanName_Nil)
next
  case (Cons c s)
  let ?u = "if c = 0x27 then [0x2019]
            else if c = 0x2014 then [0x2D]
            else if c = 0x5C \<or> c = 0x2F then []
            else [c]"
  have "cleanName (cleanName (c # s)) = cleanName (?u @ cleanName s)"
    by (simp only: cleanName_Cons)
  also have "\<dots> = cleanName ?u @ cleanName (cleanName s)"
    by (rule cleanName_append)
  also have "\<dots> = ?u @ cleanName s"
    by (simp only: cleanName_unit Cons.IH)
  also have "\<dots> = cleanName (c # s)"
    by (simp only: cleanName_Cons)
  finally show ?case .
qed

section \<open>Properties of the username generator\<close>

text \<open>
  The query result can be replaced by the stored usernames themselves: a candidate is
  matched by a returned user exactly when it is stored.
\<close>

lemma find_not_stored:
  "find (\<lambda>username. \<not> list_ex (\<lambda>user. user = username)
            (filter (\<lambda>u. u \<in> set us) stored)) us
   = find (\<lambda>c. c \<notin> set stored) us"
  by (rule find_cong) (auto simp: list_ex_iff)

lemma uniqueUsername_find:
  "uniqueUsername lc ms data stored =
     (case find (\<lambda>c. c \<notin> set stored) (usernames lc ms data) of
        None \<Rightarrow> Inl (Error ''Unable to find unique username for user'')
      | Some c \<Rightarrow> if c = [] then Inl (Error ''Unable to find unique username for user'') else Inr c)"
  by (simp add: uniqueUsername_def Let_def find_not_stored)

lemma usernames_order:
  "usernames lc (m1, m2, m3, m4, m5) data =
     (case email data of None \<Rightarrow> [] | Some e \<Rightarrow> if e \<noteq> [] then [lc e] else []) @
     map (\<lambda>s. lc (firstName data @ lastName data) @ s)
       [[], random m1, random m2, random m3, random m4, random m5]"
  by (simp add: usernames.simps Let_def split: option.split)

lemma random_range: "m < 100 \<Longrightarrow> \<exists>k. 1 \<le> k \<and> k \<le> 100 \<and> random m = String_nat k"
  by (rule exI [of _ "m + 1"]) (simp add: random_def)

text \<open>
  C5 (as amended). The candidate array is, in this order: the lower-cased email when
  \<open>email\<close> is a non-empty string, the lower-cased \<open>firstName + lastName\<close>, and five
  copies of that name each followed by the decimal digits of an integer from 1 to 100.
  The generator returns the first candidate that is not a stored username when that
  candidate is a non-empty string. It fails with the plain
  \<open>Error('Unable to find unique username for user')\<close> when every candidate is stored,
  and also when the first candidate that is not stored is the empty string.
\<close>

theorem uniqueUsername_first_free:
  "usernames lc (m1, m2, m3, m4, m5) data =
     (case email data of None \<Rightarrow> [] | Some e \<Rightarrow> if e \<noteq> [] then [lc e] else []) @
     map (\<lambda>s. lc (firstName data @ lastName data) @ s)
       [[], random m1, random m2, random m3, random m4, random m5]
   \<and> (\<forall>m<100. \<exists>k. 1 \<le> k \<and> k \<le> 100 \<and> random m = String_nat k)
   \<and> uniqueUsername lc (m1, m2, m3, m4, m5) data stored =
       (case find (\<lambda>c. c \<notin> set stored) (usernames lc (m1, m2, m3, m4, m5) data) of
          None \<Rightarrow> Inl (Error ''Unable to find unique username for user'')
        | Some c \<Rightarrow>
            if c = [] then Inl (Error ''Unable to find unique username for user'')
            else Inr c)"
  using usernames_order [of lc m1 m2 m3 m4 m5 data] random_range
    uniqueUsername_find [of lc "(m1, m2, m3, m4, m5)" data stored]
  by blast

theorem uniqueUsername_first_free_witness:
  "uniqueUsername (\<lambda>s. s) (0, 0, 0, 41, 0)
     \<lparr>email = Some (js ''a@b''), firstName = js ''a'', lastName = js ''b''\<rparr>
     [js ''ab'', js ''ab1'', js ''a@b''] = Inr (js ''ab42'')
   \<and> random 41 = String_nat 42"
  using uniqueUsername_first_free [of "\<lambda>s. s" 0 0 0 41 0
     "\<lparr>email = Some (js ''a@b''), firstName = js ''a'', lastName = js ''b''\<rparr>"
     "[js ''ab'', js ''ab1'', js ''a@b'']"]
  by (simp add: js_def random_def String_nat.simps)

text \<open>
  C5 as stated fails for an empty name. With \<open>firstName = ''\<close>, \<open>lastName = ''\<close>,
  no email and no stored user, the first candidate is the empty string (which
  \<open>toLowerCase\<close> leaves as it is). It is not stored, \<open>find\<close> returns it, and
  \<open>!username\<close> holds for it: the generator fails although a candidate is free.
\<close>

theorem uniqueUsername_empty_candidate_counterexample:
  "find (\<lambda>c. c \<notin> set [])
     (usernames (\<lambda>s. s) (0, 0, 0, 0, 0) \<lparr>email = None, firstName = [], lastName = []\<rparr>)
     = Some []
   \<and> uniqueUsername (\<lambda>s. s) (0, 0, 0, 0, 0) \<lparr>email = None, firstName = [], lastName = []\<rparr> []
     = Inl (Error ''Unable to find unique username for user'')"
  by (simp add: uniqueUsername_def usernames.simps Let_def)

lemma suffixed_usernames:
  "suffixed (usernames lc (m1, m2, m3, m4, m5) data) =
     map (\<lambda>s. lc (firstName data @ lastName data) @ s)
       [random m1, random m2, random m3, random m4, random m5]"
  by (simp add: suffixed_def usernames.simps Let_def split: option.split)

lemma uniqueUsername_member:
  "uniqueUsername lc ms data stored = Inr h \<Longrightarrow> h \<in> set (usernames lc ms data)"
  by (auto simp: uniqueUsername_find find_Some_iff split: option.splits if_splits)

text \<open>
  C10. The five suffixes are drawn independently, so some draws (all five equal, for
  one) make suffixed candidates coincide: the candidate array then has duplicates and
  fewer than five distinct suffixed entries. Whatever the draws and the stored
  usernames, a returned username is an entry of the candidate array.
\<close>

theorem usernames_duplicates:
  "(\<exists>ms. (case ms of (m1, m2, m3, m4, m5) \<Rightarrow>
             m1 < 100 \<and> m2 < 100 \<and> m3 < 100 \<and> m4 < 100 \<and> m5 < 100)
        \<and> \<not> distinct (suffixed (usernames lc ms data))
        \<and> \<not> distinct (usernames lc ms data)
        \<and> card (set (suffixed (usernames lc ms data))) < 5)
   \<and> (\<forall>ms stored h. uniqueUsername lc ms data stored = Inr h \<longrightarrow>
         h \<in> set (usernames lc ms data))"
proof (intro conjI allI impI)
  have s: "suffixed (usernames lc (0, 0, 0, 0, 0) data) =
           replicate 5 (lc (firstName data @ lastName data) @ random 0)"
    by (simp add: suffixed_usernames numeral_eq_Suc)
  have "\<not> distinct (suffixed (usernames lc (0, 0, 0, 0, 0) data))"
    by (simp add: suffixed_usernames)
  moreover have "\<not> distinct (usernames lc (0, 0, 0, 0, 0) data)"
    by (simp add: usernames_order)
  moreover have "card (set (suffixed (usernames lc (0, 0, 0, 0, 0) data))) < 5"
    by (simp add: s)
  ultimately show "\<exists>ms. (case ms of (m1, m2, m3, m4, m5) \<Rightarrow>
             m1 < 100 \<and> m2 < 100 \<and> m3 < 100 \<and> m4 < 100 \<and> m5 < 100)
        \<and> \<not> distinct (suffixed (usernames lc ms data))
        \<and> \<not> distinct (usernames lc ms data)
        \<and> card (set (suffixed (usernames lc ms data))) < 5"
    by (intro exI [of _ "(0, 0, 0, 0, 0)"]) simp
next
  fix ms stored h
  assume "uniqueUsername lc ms data stored = Inr h"
  then show "h \<in> set (usernames lc ms data)"
    by (rule uniqueUsername_member)
qed

theorem usernames_duplicates_witness:
  "(\<exists>ms. \<not> distinct (usernames (\<lambda>s. s) ms
           \<lparr>email = Some (js ''a@b''), firstName = js ''a'', lastName = js ''b''\<rparr>))
   \<and> js ''ab42'' \<in> set (usernames (\<lambda>s. s) (0, 0, 0, 41, 0)
           \<lparr>email = Some (js ''a@b''), firstName = js ''a'', lastName = js ''b''\<rparr>)"
proof -
  let ?d = "\<lparr>email = Some (js ''a@b''), firstName = js ''a'', lastName = js ''b''\<rparr>"
  have r: "uniqueUsername (\<lambda>s. s) (0, 0, 0, 41, 0) ?d [js ''ab'', js ''ab1'', js ''a@b'']
             = Inr (js ''ab42'')"
    by (simp add: uniqueUsername_find usernames_order js_def random_def String_nat.simps)
  from usernames_duplicates [of "\<lambda>s. s" ?d] r show ?thesis
    by blast
qed

section \<open>Properties of the token handler\<close>

lemma js_password_bearer: "js ''password'' \<noteq> js ''bearer''"
  by (simp add: js_def)

lemma js_password_refreshToken: "js ''password'' \<noteq> js ''refreshToken''"
  by (simp add: js_def)

text \<open>
  What \<open>authCallback\<close> did when it ended with \<open>res.send\<close>: there was no error, the
  user was found and not suspended, and the tokens and the cookie are as follows.
\<close>

lemma authCallback_SendD:
  assumes "authCallback req g r s now err user = Send res"
  shows "\<exists>u. user = Some u \<and> \<not> truthy err \<and> \<not> isSuspended u
           \<and> req_me res = u
           \<and> body_accessToken res =
                Token ''access'' ((getClaims u)\<lparr>secureStatus :=
                  (if s \<and> g = js ''password''
                   then Some (now + SECURE_STATUS_EXPIRATION req * 1000) else None)\<rparr>)
           \<and> generated res =
                body_accessToken res # (if r then [Token ''refresh'' (getClaims u)] else [])
           \<and> cookies res =
                (if r then [\<lparr>cookie_name = ''refreshToken'',
                             cookie_value = Token ''refresh'' (getClaims u),
                             maxAge = REFRESH_TOKEN_COOKIE_MAX_AGE req * 1000,
                             cookie_secure = secure req,
                             httpOnly = True\<rparr>] else [])"
proof (cases user)
  case None
  with assms show ?thesis
    by (simp add: authCallback_def split: if_splits)
next
  case (Some u)
  with assms have a: "\<not> truthy err" "\<not> isSuspended u"
    by (auto simp: authCallback_def split: if_splits)
  from assms Some a show ?thesis
    by (cases r) (auto simp: authCallback_def Let_def getClaims_def)
qed

lemma token_SendD:
  assumes "token tcc auth now req = Send res"
  shows "\<exists>err user. authCallback req (tcc (body_grantType req)) (truthy (body_remember req))
           (truthy (body_secureStatus req)) now err user = Send res"
  using assms
  by (auto simp: token_def Let_def split: if_splits prod.splits)

text \<open>
  The handler does send a response, the one written out here, when the grant type is
  one of the three, the strategy passes no error and a user, and the user is not
  suspended.
\<close>

lemma token_Send:
  assumes "toCamelCase (body_grantType req) = js ''bearer''
             \<or> toCamelCase (body_grantType req) = js ''password''
             \<or> toCamelCase (body_grantType req) = js ''refreshToken''"
    and "\<And>strategy. authenticate strategy = (err, Some u)"
    and "\<not> truthy err" "\<not> isSuspended u"
  shows "\<exists>res. token toCamelCase authenticate now req = Send res"
proof -
  have 1: "token toCamelCase authenticate now req =
           authCallback req (toCamelCase (body_grantType req)) (truthy (body_remember req))
             (truthy (body_secureStatus req)) now err (Some u)"
    using assms(1) by (auto simp: token_def Let_def assms(2))
  have 2: "\<exists>res. authCallback req (toCamelCase (body_grantType req)) (truthy (body_remember req))
             (truthy (body_secureStatus req)) now err (Some u) = Send res"
    using assms(3,4) by (simp add: authCallback_def Let_def)
  from 1 2 show ?thesis by simp
qed

text \<open>
  C1. Whenever the token handler sends an access token, its claims carry
  \<open>secureStatus\<close> exactly when the \<open>secureStatus\<close> body field is truthy and the grant
  type is \<open>password\<close>. For the grant types \<open>refreshToken\<close> and \<open>bearer\<close> the field is
  absent whatever the body says, and when it is present its value is the current
  instant moved forward by \<open>SECURE_STATUS_EXPIRATION\<close> seconds.
\<close>

theorem token_secureStatus:
  assumes "token toCamelCase authenticate now req = Send res"
  shows "(secureStatus (token_claims (body_accessToken res)) \<noteq> None) =
           (truthy (body_secureStatus req) \<and> toCamelCase (body_grantType req) = js ''password'')
       \<and> (toCamelCase (body_grantType req) = js ''refreshToken''
            \<or> toCamelCase (body_grantType req) = js ''bearer''
          \<longrightarrow> secureStatus (token_claims (body_accessToken res)) = None)
       \<and> (truthy (body_secureStatus req) \<and> toCamelCase (body_grantType req) = js ''password''
          \<longrightarrow> secureStatus (token_claims (body_accessToken res)) =
                Some (now + SECURE_STATUS_EXPIRATION req * 1000))"
proof -
  from token_SendD [OF assms] obtain err user where
    "authCallback req (toCamelCase (body_grantType req)) (truthy (body_remember req))
       (truthy (body_secureStatus req)) now err user = Send res"
    by blast
  from authCallback_SendD [OF this] obtain u where
    t: "body_accessToken res =
          Token ''access'' ((getClaims u)\<lparr>secureStatus :=
            (if truthy (body_secureStatus req) \<and> toCamelCase (body_grantType req) = js ''password''
             then Some (now + SECURE_STATUS_EXPIRATION req * 1000) else None)\<rparr>)"
    by blast
  show ?thesis
    using js_password_bearer js_password_refreshToken
    by (simp add: t)
qed

theorem token_secureStatus_witness:
  "(\<exists>res. token camelCase_id (\<lambda>strategy. (JNull, Some (user_doc 7 [''admin''] False))) 1000
            (grant_request ''password'' (JBool True) (JBool True) True) = Send res
        \<and> secureStatus (token_claims (body_accessToken res)) = Some 301000)
   \<and> (\<exists>res. token camelCase_id (\<lambda>strategy. (JNull, Some (user_doc 7 [''admin''] False))) 1000
            (grant_request ''refreshToken'' (JBool True) (JBool True) True) = Send res
        \<and> secureStatus (token_claims (body_accessToken res)) = None)"
proof -
  let ?A = "\<lambda>strategy::string. (JNull, Some (user_doc 7 [''admin''] False))"
  let ?P = "grant_request ''password'' (JBool True) (JBool True) True"
  let ?R = "grant_request ''refreshToken'' (JBool True) (JBool True) True"
  have gp: "camelCase_id (body_grantType ?P) = js ''password''"
    and gr: "camelCase_id (body_grantType ?R) = js ''refreshToken''"
    by (simp_all add: camelCase_id_def grant_request_def)
  have n: "\<not> isSuspended (user_doc 7 [''admin''] False)"
    by (simp add: user_doc_def)
  have "\<exists>res. token camelCase_id ?A 1000 ?P = Send res"
    using token_Send [of camelCase_id ?P ?A JNull _ 1000] gp n by simp
  then obtain res where e: "token camelCase_id ?A 1000 ?P = Send res" ..
  from token_secureStatus [OF e] gp
  have 1: "secureStatus (token_claims (body_accessToken res)) = Some 301000"
    by (simp add: grant_request_def)
  have "\<exists>res. token camelCase_id ?A 1000 ?R = Send res"
    using token_Send [of camelCase_id ?R ?A JNull _ 1000] gr n by simp
  then obtain res' where e': "token camelCase_id ?A 1000 ?R = Send res'" ..
  from token_secureStatus [OF e'] gr
  have 2: "secureStatus (token_claims (body_accessToken res')) = None"
    by simp
  from e 1 e' 2 show ?thesis by blast
qed

text \<open>
  C4 (as amended). Every successful grant calls \<open>jwt.generate\<close> for one access token
  and returns it in the response body; no cookie carries it. Exactly when the
  \<open>remember\<close> body field is truthy, a refresh token is generated as well, from claims
  without \<open>secureStatus\<close>, and set as the one cookie \<open>refreshToken\<close>: http-only, with
  a max-age of \<open>REFRESH_TOKEN_COOKIE_MAX_AGE\<close> seconds (passed in milliseconds), and
  with the \<open>secure\<close> flag equal to \<open>req.secure\<close>.
\<close>

theorem token_tokens:
  assumes "token toCamelCase authenticate now req = Send res"
  shows "token_type (body_accessToken res) = ''access''
       \<and> filter (\<lambda>t. token_type t = ''access'') (generated res) = [body_accessToken res]
       \<and> (\<forall>c\<in>set (cookies res). cookie_value c \<noteq> body_accessToken res)
       \<and> (truthy (body_remember req) \<longrightarrow>
            generated res = [body_accessToken res, Token ''refresh'' (getClaims (req_me res))]
          \<and> secureStatus (getClaims (req_me res)) = None
          \<and> cookies res =
               [\<lparr>cookie_name = ''refreshToken'',
                 cookie_value = Token ''refresh'' (getClaims (req_me res)),
                 maxAge = REFRESH_TOKEN_COOKIE_MAX_AGE req * 1000,
                 cookie_secure = secure req,
                 httpOnly = True\<rparr>])
       \<and> (\<not> truthy (body_remember req) \<longrightarrow>
            generated res = [body_accessToken res] \<and> cookies res = [])"
proof -
  from token_SendD [OF assms] obtain err user where
    "authCallback req (toCamelCase (body_grantType req)) (truthy (body_remember req))
       (truthy (body_secureStatus req)) now err user = Send res"
    by blast
  from authCallback_SendD [OF this] obtain u where
    m: "req_me res = u"
    and t: "body_accessToken res =
          Token ''access'' ((getClaims u)\<lparr>secureStatus :=
            (if truthy (body_secureStatus req) \<and> toCamelCase (body_grantType req) = js ''password''
             then Some (now + SECURE_STATUS_EXPIRATION req * 1000) else None)\<rparr>)"
    and g: "generated res =
          body_accessToken res #
            (if truthy (body_remember req) then [Token ''refresh'' (getClaims u)] else [])"
    and c: "cookies res =
          (if truthy (body_remember req)
           then [\<lparr>cookie_name = ''refreshToken'',
                   cookie_value = Token ''refresh'' (getClaims u),
                   maxAge = REFRESH_TOKEN_COOKIE_MAX_AGE req * 1000,
                   cookie_secure = secure req,
                   httpOnly = True\<rparr>] else [])"
    by blast
  have 1: "token_type (body_accessToken res) = ''access''"
    by (simp add: t)
  have 2: "filter (\<lambda>t. token_type t = ''access'') (generated res) = [body_accessToken res]"
    by (simp add: g 1)
  have 3: "\<forall>c\<in>set (cookies res). cookie_value c \<noteq> body_accessToken res"
    by (simp add: c t)
  have 4: "secureStatus (getClaims (req_me res)) = None"
    by (simp add: getClaims_def)
  from 1 2 3 4 show ?thesis
    by (simp add: g c m)
qed

theorem token_tokens_witness:
  "\<exists>res. token camelCase_id (\<lambda>strategy. (JNull, Some (user_doc 7 [''admin''] False))) 1000
            (grant_request ''password'' (JBool True) (JBool True) True) = Send res
        \<and> map cookie_name (cookies res) = [''refreshToken'']
        \<and> map maxAge (cookies res) = [2592000000]
        \<and> map httpOnly (cookies res) = [True]
        \<and> map cookie_secure (cookies res) = [True]
        \<and> map token_type (generated res) = [''access'', ''refresh'']"
proof -
  let ?A = "\<lambda>strategy::string. (JNull, Some (user_doc 7 [''admin''] False))"
  let ?P = "grant_request ''password'' (JBool True) (JBool True) True"
  have gp: "camelCase_id (body_grantType ?P) = js ''password''"
    by (simp add: camelCase_id_def grant_request_def)
  have n: "\<not> isSuspended (user_doc 7 [''admin''] False)"
    by (simp add: user_doc_def)
  have "\<exists>res. token camelCase_id ?A 1000 ?P = Send res"
    using token_Send [of camelCase_id ?P ?A JNull _ 1000] gp n by simp
  then obtain res where e: "token camelCase_id ?A 1000 ?P = Send res" ..
  from token_tokens [OF e]
  have r: "map cookie_name (cookies res) = [''refreshToken'']
        \<and> map maxAge (cookies res) = [2592000000]
        \<and> map httpOnly (cookies res) = [True]
        \<and> map cookie_secure (cookies res) = [True]
        \<and> map token_type (generated res) = [''access'', ''refresh'']"
    by (simp add: grant_request_def)
  show ?thesis
    by (rule exI [of _ res]) (simp only: e r simp_thms)
qed

text \<open>
  C4 as stated fails on a request that did not arrive over TLS. A password grant with
  \<open>remember\<close> set and \<open>req.secure\<close> false succeeds and sets the refresh-token cookie
  with \<open>secure: false\<close>.
\<close>

theorem token_cookie_not_secure_counterexample:
  "token camelCase_id (\<lambda>strategy. (JNull, Some (user_doc 7 [''admin''] False))) 1000
     (grant_request ''password'' (JBool True) (JBool False) False) =
   Send \<lparr>generated = [Token ''access'' (getClaims (user_doc 7 [''admin''] False)),
                      Token ''refresh'' (getClaims (user_doc 7 [''admin''] False))],
         req_me = user_doc 7 [''admin''] False,
         cookies = [\<lparr>cookie_name = ''refreshToken'',
                     cookie_value = Token ''refresh'' (getClaims (user_doc 7 [''admin''] False)),
                     maxAge = 2592000000,
                     cookie_secure = False,
                     httpOnly = True\<rparr>],
         body_accessToken = Token ''access'' (getClaims (user_doc 7 [''admin''] False))\<rparr>"
  by (simp add: token_def authCallback_def Let_def js_password_bearer camelCase_id_def
      grant_request_def user_doc_def)

section \<open>Properties of the middleware\<close>

lemma some_hasRole_Some:
  "some_hasRole (Some u) a = Inr (\<exists>role\<in>set a. hasRole u role)"
  by (induction a) auto

lemma some_hasRole_None:
  "some_hasRole None a = (if a = [] then Inr False else Inl TypeError)"
  by (cases a) auto

text \<open>
  C2. A suspended user gets \<open>UserSuspendedError\<close>. In the token handler this holds
  for each of the three grant types once the strategy has resolved the user without
  an error, whatever else the request holds. In \<open>ensureAuthenticated\<close> the
  suspension check comes before the role check, so it holds for every list of roles.
\<close>

theorem suspended_precedence:
  assumes "isSuspended u"
  shows "(\<not> truthy err \<longrightarrow>
            authCallback req grantType remember flag now err (Some u) = Next UserSuspendedError)
       \<and> ((toCamelCase (body_grantType req) = js ''bearer''
             \<or> toCamelCase (body_grantType req) = js ''password''
             \<or> toCamelCase (body_grantType req) = js ''refreshToken'')
            \<and> (\<forall>strategy. authenticate strategy = (err, Some u)) \<and> \<not> truthy err
          \<longrightarrow> token toCamelCase authenticate now req = Next UserSuspendedError)
       \<and> (entity req ''me'' = Some u \<longrightarrow> ensureAuthenticated rs req = Fail UserSuspendedError)"
proof (intro conjI impI)
  assume "\<not> truthy err"
  with assms show "authCallback req grantType remember flag now err (Some u) = Next UserSuspendedError"
    by (simp add: authCallback_def)
next
  assume h: "(toCamelCase (body_grantType req) = js ''bearer''
             \<or> toCamelCase (body_grantType req) = js ''password''
             \<or> toCamelCase (body_grantType req) = js ''refreshToken'')
            \<and> (\<forall>strategy. authenticate strategy = (err, Some u)) \<and> \<not> truthy err"
  then have c: "authCallback req (toCamelCase (body_grantType req)) (truthy (body_remember req))
           (truthy (body_secureStatus req)) now err (Some u) = Next UserSuspendedError"
    using assms by (simp add: authCallback_def)
  from h have a: "\<And>strategy. authenticate strategy = (err, Some u)" by blast
  from h c show "token toCamelCase authenticate now req = Next UserSuspendedError"
    by (auto simp: token_def Let_def a)
next
  assume "entity req ''me'' = Some u"
  with assms show "ensureAuthenticated rs req = Fail UserSuspendedError"
    by (simp add: ensureAuthenticated_def)
qed

theorem suspended_precedence_witness:
  "token camelCase_id (\<lambda>strategy. (JNull, Some (user_doc 7 [] True))) 1000
     (grant_request ''refreshToken'' (JBool True) (JBool False) True) = Next UserSuspendedError
   \<and> ensureAuthenticated [''admin''] (loaded_request [(''me'', user_doc 7 [] True)])
     = Fail UserSuspendedError"
proof -
  have s: "isSuspended (user_doc 7 [] True)"
    by (simp add: user_doc_def)
  show ?thesis
    using suspended_precedence [OF s, where err = JNull
        and toCamelCase = camelCase_id
        and req = "grant_request ''refreshToken'' (JBool True) (JBool False) True"
        and authenticate = "\<lambda>strategy. (JNull, Some (user_doc 7 [] True))" and now = 1000]
      suspended_precedence [OF s, where req = "loaded_request [(''me'', user_doc 7 [] True)]"
        and rs = "[''admin'']"]
    by (simp add: camelCase_id_def grant_request_def loaded_request_def)
qed

lemma belongsTo_PKString:
  "belongsTo itemKey ownerKey (PKString k) rs =
     (if k = [] then Inl (Error ''Missing prop key and unknown owner key'')
      else Inr (belongsTo_middleware itemKey ownerKey k rs))"
  by (simp add: belongsTo_def)

text \<open>
  Whatever form the arguments take, a returned middleware is \<open>belongsTo_middleware\<close>
  with a non-empty property name, and with the third argument as the roles when that
  is an array.
\<close>

lemma belongsTo_InrD:
  assumes "belongsTo itemKey ownerKey pk rs = Inr guard"
  shows "\<exists>k. k \<noteq> [] \<and>
           guard = belongsTo_middleware itemKey ownerKey k
                     (case pk of PKArray b \<Rightarrow> Some b | _ \<Rightarrow> rs)"
  using assms
  by (cases pk) (auto simp: belongsTo_def split: if_splits)

lemma belongsTo_middleware_bypass:
  assumes "entity req ''me'' = Some u" "\<exists>role\<in>set a. hasRole u role"
  shows "belongsTo_middleware itemKey ownerKey k (Some a) req = Pass"
  using assms by (simp add: belongsTo_middleware_def some_hasRole_Some)

lemma belongsTo_middleware_TypeError:
  assumes "entity req ''me'' = None" "a \<noteq> []"
  shows "belongsTo_middleware itemKey ownerKey k (Some a) req = Throws TypeError"
  using assms by (simp add: belongsTo_middleware_def some_hasRole_None)

lemma belongsTo_middleware_compare:
  assumes "rs = None \<or> rs = Some []
             \<or> (\<exists>a u. rs = Some a \<and> entity req ''me'' = Some u \<and> \<not> (\<exists>role\<in>set a. hasRole u role))"
    and "entity req ownerKey = Some owner" "entity req itemKey = Some item"
    and "refs item k = Ref i \<or> refs item k = Populated i"
  shows "belongsTo_middleware itemKey ownerKey k rs req =
           (if oid owner = i then Pass else Fail NotAuthorizedError)"
proof -
  have "(case rs of None \<Rightarrow> Inr False | Some a \<Rightarrow> some_hasRole (entity req ''me'') a) = Inr False"
    using assms(1) by (auto simp: some_hasRole_Some)
  with assms(2-) show ?thesis
    by (auto simp: belongsTo_middleware_def)
qed

text \<open>
  Whatever form the arguments take, a returned middleware is \<open>belongsTo_middleware\<close>
  for the property name given, or \<open>user\<close> when none is given, and for the roles of
  the third argument when that is an array, of the fourth otherwise.
\<close>

lemma belongsTo_Inr_eq:
  assumes "belongsTo itemKey ownerKey pk rs0 = Inr guard"
  shows "guard = belongsTo_middleware itemKey ownerKey
                   (case pk of PKString s \<Rightarrow> s | _ \<Rightarrow> ''user'')
                   (case pk of PKArray b \<Rightarrow> Some b | _ \<Rightarrow> rs0)"
  using assms
  by (cases pk) (auto simp: belongsTo_def split: if_splits)

text \<open>
  C3 (as amended). Let \<open>guard\<close> be the middleware \<open>belongsTo\<close> returns, \<open>rs\<close> its
  roles and \<open>propKey\<close> its property name, and take a request on which the role test
  returns: no roles array is given, or it is empty, or a user is attached to the
  request. If a roles array is given and the user has one of the roles, the guard
  passes, whatever the item and the owner are. Otherwise, with the owner and the item
  loaded and the item's property holding an id or a populated document with that id,
  the guard passes if the id is the owner's and fails with \<open>NotAuthorizedError\<close> if
  it is not.
\<close>

theorem belongsTo_ownership:
  assumes "belongsTo itemKey ownerKey pk rs0 = Inr guard"
    and "rs = (case pk of PKArray b \<Rightarrow> Some b | _ \<Rightarrow> rs0)"
    and "propKey = (case pk of PKString s \<Rightarrow> s | _ \<Rightarrow> ''user'')"
  shows "(\<forall>a u. rs = Some a \<and> entity req ''me'' = Some u \<and> (\<exists>role\<in>set a. hasRole u role)
            \<longrightarrow> guard req = Pass)
       \<and> (\<forall>owner item i.
            (rs = None \<or> rs = Some []
               \<or> (\<exists>a u. rs = Some a \<and> entity req ''me'' = Some u
                    \<and> \<not> (\<exists>role\<in>set a. hasRole u role)))
            \<and> entity req ownerKey = Some owner \<and> entity req itemKey = Some item
            \<and> (refs item propKey = Ref i \<or> refs item propKey = Populated i)
            \<longrightarrow> guard req = (if oid owner = i then Pass else Fail NotAuthorizedError))"
proof -
  from belongsTo_Inr_eq [OF assms(1)] assms(2,3)
  have g: "guard = belongsTo_middleware itemKey ownerKey propKey rs"
    by simp
  show ?thesis
  proof (intro conjI allI impI)
    fix a u
    assume "rs = Some a \<and> entity req ''me'' = Some u \<and> (\<exists>role\<in>set a. hasRole u role)"
    then show "guard req = Pass"
      by (simp add: g belongsTo_middleware_bypass)
  next
    fix owner item i
    assume h: "(rs = None \<or> rs = Some []
               \<or> (\<exists>a u. rs = Some a \<and> entity req ''me'' = Some u
                    \<and> \<not> (\<exists>role\<in>set a. hasRole u role)))
            \<and> entity req ownerKey = Some owner \<and> entity req itemKey = Some item
            \<and> (refs item propKey = Ref i \<or> refs item propKey = Populated i)"
    from h have 1: "rs = None \<or> rs = Some []
               \<or> (\<exists>a u. rs = Some a \<and> entity req ''me'' = Some u
                    \<and> \<not> (\<exists>role\<in>set a. hasRole u role))" by (rule conjunct1)
    from h have 2: "entity req ownerKey = Some owner" by simp
    from h have 3: "entity req itemKey = Some item" by simp
    from h have 4: "refs item propKey = Ref i \<or> refs item propKey = Populated i" by simp
    show "guard req = (if oid owner = i then Pass else Fail NotAuthorizedError)"
      unfolding g by (rule belongsTo_middleware_compare [OF 1 2 3 4])
  qed
qed

theorem belongsTo_ownership_witness:
  "belongsTo_middleware ''post'' ''me'' ''user'' (Some [''admin''])
     (loaded_request [(''me'', user_doc 7 [''user''] False),
                      (''post'', item_doc 20 ''user'' (Populated 7))]) = Pass
   \<and> belongsTo_middleware ''post'' ''me'' ''user'' (Some [''admin''])
     (loaded_request [(''me'', user_doc 7 [''user''] False),
                      (''post'', item_doc 20 ''user'' (Ref 8))]) = Fail NotAuthorizedError
   \<and> belongsTo_middleware ''post'' ''me'' ''user'' (Some [''admin''])
     (loaded_request [(''me'', user_doc 7 [''admin''] False),
                      (''post'', item_doc 20 ''user'' (Ref 8))]) = Pass
   \<and> belongsTo_middleware ''post'' ''club'' ''club'' None
     (loaded_request [(''club'', item_doc 9 ''name'' Undefined),
                      (''post'', item_doc 20 ''club'' (Ref 9))]) = Pass"
proof -
  let ?g = "belongsTo_middleware ''post'' ''me'' ''user'' (Some [''admin''])"
  let ?c = "belongsTo_middleware ''post'' ''club'' ''club'' None"
  have b: "belongsTo ''post'' ''me'' (PKArray [''admin'']) None = Inr ?g"
    by (simp add: belongsTo_def)
  have r: "Some [''admin''] = (case PKArray [''admin''] of PKArray b \<Rightarrow> Some b | _ \<Rightarrow> None)"
    and k: "''user'' = (case PKArray [''admin''] of PKString s \<Rightarrow> s | _ \<Rightarrow> ''user'')"
    by simp_all
  have bc: "belongsTo ''post'' ''club'' (PKString ''club'') None = Inr ?c"
    by (simp add: belongsTo_def)
  have rc: "None = (case PKString ''club'' of PKArray b \<Rightarrow> Some b | _ \<Rightarrow> None)"
    and kc: "''club'' = (case PKString ''club'' of PKString s \<Rightarrow> s | _ \<Rightarrow> ''user'')"
    by simp_all
  have 1: "?g (loaded_request [(''me'', user_doc 7 [''user''] False),
                      (''post'', item_doc 20 ''user'' (Populated 7))]) = Pass"
    using belongsTo_ownership [OF b r k, THEN conjunct2, rule_format,
        where req = "loaded_request [(''me'', user_doc 7 [''user''] False),
                      (''post'', item_doc 20 ''user'' (Populated 7))]"
          and owner = "user_doc 7 [''user''] False"
          and item = "item_doc 20 ''user'' (Populated 7)" and i = 7]
    by (simp add: loaded_request_def user_doc_def item_doc_def hasRole_def)
  have 2: "?g (loaded_request [(''me'', user_doc 7 [''user''] False),
                      (''post'', item_doc 20 ''user'' (Ref 8))]) = Fail NotAuthorizedError"
    using belongsTo_ownership [OF b r k, THEN conjunct2, rule_format,
        where req = "loaded_request [(''me'', user_doc 7 [''user''] False),
                      (''post'', item_doc 20 ''user'' (Ref 8))]"
          and owner = "user_doc 7 [''user''] False"
          and item = "item_doc 20 ''user'' (Ref 8)" and i = 8]
    by (simp add: loaded_request_def user_doc_def item_doc_def hasRole_def)
  have 3: "?g (loaded_request [(''me'', user_doc 7 [''admin''] False),
                      (''post'', item_doc 20 ''user'' (Ref 8))]) = Pass"
    using belongsTo_ownership [OF b r k, THEN conjunct1, rule_format,
        where req = "loaded_request [(''me'', user_doc 7 [''admin''] False),
                      (''post'', item_doc 20 ''user'' (Ref 8))]"
          and a = "[''admin'']" and u = "user_doc 7 [''admin''] False"]
    by (simp add: loaded_request_def user_doc_def hasRole_def)
  have 4: "?c (loaded_request [(''club'', item_doc 9 ''name'' Undefined),
                      (''post'', item_doc 20 ''club'' (Ref 9))]) = Pass"
    using belongsTo_ownership [OF bc rc kc, THEN conjunct2, rule_format,
        where req = "loaded_request [(''club'', item_doc 9 ''name'' Undefined),
                      (''post'', item_doc 20 ''club'' (Ref 9))]"
          and owner = "item_doc 9 ''name'' Undefined"
          and item = "item_doc 20 ''club'' (Ref 9)" and i = 9]
    by (simp add: loaded_request_def item_doc_def)
  from 1 2 3 4 show ?thesis by simp
qed

text \<open>
  C3 as stated fails when a non-empty roles array is given and no user is attached
  to the request. For \<open>belongsTo('post', 'club', 'club', ['admin'])\<close>, with the club
  and the post loaded and the post's \<open>club\<close> property equal to the club's id, the
  role test reads \<open>hasRole\<close> of \<open>undefined\<close> and the middleware throws a
  \<open>TypeError\<close> before it compares the ids.
\<close>

theorem belongsTo_no_principal_counterexample:
  "belongsTo ''post'' ''club'' (PKString ''club'') (Some [''admin''])
     = Inr (belongsTo_middleware ''post'' ''club'' ''club'' (Some [''admin'']))
   \<and> entity (loaded_request [(''club'', item_doc 9 ''name'' Undefined),
                              (''post'', item_doc 20 ''club'' (Ref 9))]) ''me'' = None
   \<and> entity (loaded_request [(''club'', item_doc 9 ''name'' Undefined),
                              (''post'', item_doc 20 ''club'' (Ref 9))]) ''club''
       = Some (item_doc 9 ''name'' Undefined)
   \<and> entity (loaded_request [(''club'', item_doc 9 ''name'' Undefined),
                              (''post'', item_doc 20 ''club'' (Ref 9))]) ''post''
       = Some (item_doc 20 ''club'' (Ref 9))
   \<and> oid (item_doc 9 ''name'' Undefined) = 9
   \<and> refs (item_doc 20 ''club'' (Ref 9)) ''club'' = Ref 9
   \<and> belongsTo_middleware ''post'' ''club'' ''club'' (Some [''admin''])
       (loaded_request [(''club'', item_doc 9 ''name'' Undefined),
                        (''post'', item_doc 20 ''club'' (Ref 9))]) = Throws TypeError"
  by (simp add: belongsTo_def belongsTo_middleware_def loaded_request_def item_doc_def)

text \<open>
  C9 (as amended). In a middleware \<open>belongsTo\<close> returns for a roles array (given as
  the fourth argument, or as the third), the role test runs before the presence
  checks. With a non-empty roles array and no \<open>req.me\<close> the middleware throws a
  \<open>TypeError\<close>; with a user who has one of the roles it passes, whether or not the
  owner and the item were loaded.
\<close>

theorem belongsTo_roles_first:
  assumes "belongsTo itemKey ownerKey pk rs = Inr guard"
    and "(case pk of PKArray b \<Rightarrow> Some b | _ \<Rightarrow> rs) = Some a"
  shows "(a \<noteq> [] \<and> entity req ''me'' = None \<longrightarrow> guard req = Throws TypeError)
       \<and> (\<forall>u. entity req ''me'' = Some u \<and> (\<exists>role\<in>set a. hasRole u role)
            \<longrightarrow> guard req = Pass)"
proof -
  from belongsTo_InrD [OF assms(1)] assms(2) obtain k where
    g: "guard = belongsTo_middleware itemKey ownerKey k (Some a)"
    by auto
  show ?thesis
    by (simp add: g belongsTo_middleware_bypass belongsTo_middleware_TypeError)
qed

theorem belongsTo_roles_first_witness:
  "belongsTo_middleware ''post'' ''club'' ''club'' (Some [''admin''])
     (loaded_request []) = Throws TypeError
   \<and> entity (loaded_request [(''me'', user_doc 7 [''admin''] False)]) ''club'' = None
   \<and> entity (loaded_request [(''me'', user_doc 7 [''admin''] False)]) ''post'' = None
   \<and> belongsTo_middleware ''post'' ''club'' ''club'' (Some [''admin''])
     (loaded_request [(''me'', user_doc 7 [''admin''] False)]) = Pass
   \<and> belongsTo_middleware ''post'' ''me'' ''user'' (Some [''admin''])
     (loaded_request []) = Throws TypeError"
proof -
  have b1: "belongsTo ''post'' ''club'' (PKString ''club'') (Some [''admin''])
              = Inr (belongsTo_middleware ''post'' ''club'' ''club'' (Some [''admin'']))"
    by (simp add: belongsTo_PKString)
  have b2: "belongsTo ''post'' ''me'' (PKArray [''admin'']) None
              = Inr (belongsTo_middleware ''post'' ''me'' ''user'' (Some [''admin'']))"
    by (simp add: belongsTo_def)
  have 1: "belongsTo_middleware ''post'' ''club'' ''club'' (Some [''admin''])
             (loaded_request []) = Throws TypeError"
    using belongsTo_roles_first [OF b1, where a = "[''admin'']" and req = "loaded_request []"]
    by (simp add: loaded_request_def)
  have 2: "belongsTo_middleware ''post'' ''club'' ''club'' (Some [''admin''])
             (loaded_request [(''me'', user_doc 7 [''admin''] False)]) = Pass"
    using belongsTo_roles_first [OF b1, where a = "[''admin'']"
        and req = "loaded_request [(''me'', user_doc 7 [''admin''] False)]"]
    by (simp add: loaded_request_def user_doc_def hasRole_def)
  have 3: "belongsTo_middleware ''post'' ''me'' ''user'' (Some [''admin''])
             (loaded_request []) = Throws TypeError"
    using belongsTo_roles_first [OF b2, where a = "[''admin'']" and req = "loaded_request []"]
    by (simp add: loaded_request_def)
  from 1 2 3 show ?thesis
    by (simp add: loaded_request_def)
qed

text \<open>
  C9 as stated fails for an empty roles array: \<open>some\<close> never calls its callback, the
  role test is false without touching \<open>req.me\<close>, and the middleware goes on to the
  presence checks. With no \<open>req.me\<close> and the owner key \<open>me\<close> it fails with a
  \<open>ServerError\<close>.
\<close>

theorem belongsTo_empty_roles_counterexample:
  "belongsTo ''post'' ''me'' PKUndefined (Some [])
     = Inr (belongsTo_middleware ''post'' ''me'' ''user'' (Some []))
   \<and> entity (loaded_request []) ''me'' = None
   \<and> belongsTo_middleware ''post'' ''me'' ''user'' (Some []) (loaded_request [])
     = Fail (ServerError ''Owner of type me has not been loaded'')"
  by (simp add: belongsTo_def belongsTo_middleware_def loaded_request_def)

section \<open>Properties of serialization and of password hashing\<close>

text \<open>
  C6. The object the \<open>toJSON\<close> transform leaves has no \<open>password\<close> key and no
  \<open>fullName\<close> key, whatever the document and the object were; its other keys are
  those it had.
\<close>

theorem toJSON_transform_omits:
  "''password'' \<notin> dom (toJSON_transform doc ret)
   \<and> ''fullName'' \<notin> dom (toJSON_transform doc ret)
   \<and> dom (toJSON_transform doc ret) = dom ret - {''password'', ''fullName''}"
  by (auto simp: toJSON_transform_def)







end
